theory Spec2Isabelle
  imports Main "HOL-Library.Char_ord" "HOL-Library.List_Lexorder" "HOL-Library.Multiset"
begin

section \<open>compareDatasets.py: values and failures\<close>

text \<open>
  A Python \<open>str\<close> is modelled as a HOL \<open>string\<close> whose characters are read as the code
  points U+0000 .. U+00FF; the order of \<open>Char_ord\<close> and \<open>List_Lexorder\<close> on such strings
  is Python's \<open><\<close> on \<open>str\<close> (code point by code point). Names and input lines with code
  points above U+00FF are outside the model.

  The value \<open>json.load\<close> returns is a \<open>json\<close>: \<open>None\<close>, \<open>bool\<close>, \<open>int\<close>, \<open>str\<close>, \<open>list\<close> or
  \<open>dict\<close>. A \<open>dict\<close> is an association list read by \<open>map_of\<close>. JSON numbers with a fraction
  or an exponent (Python \<open>float\<close>, with \<open>NaN\<close> and \<open>Infinity\<close>) are not modelled: their
  equality is floating point.
\<close>

datatype json =
    JNull
  | JBool bool
  | JInt int
  | JStr string
  | JArr "json list"
  | JObj "(string \<times> json) list"

text \<open>The exceptions of the Python run time that the modelled code can raise.\<close>

datatype py_error =
    TypeError
  | ValueError
  | EOFError
  | FileNotFoundError
  | NotADirectoryError
  | IsADirectoryError

text \<open>
  How a call ends when it does not return: \<open>sys.exit(msg)\<close> (the message goes to standard
  error and the exit status is 1), or an exception nobody catches (a traceback and the
  exit status 1).
\<close>

datatype failure = SystemExit string | Uncaught py_error

fun exit_status :: "failure + 'a \<Rightarrow> nat" where
  "exit_status (Inl _) = 1"
| "exit_status (Inr _) = 0"

section \<open>Pair keys\<close>

text \<open>
  The members of a Python \<open>set\<close> are told apart by \<open>hash\<close> and \<open>==\<close>. For the values above
  \<open>True == 1\<close> and \<open>False == 0\<close> (with equal hashes), and no other two values of different
  shape are equal; a \<open>list\<close> and a \<open>dict\<close> are unhashable. \<open>hash_key\<close> sends a value to the
  representative of its class, so that a Python set of tuples is a HOL set of pairs of
  representatives.
\<close>

datatype pykey = KNone | KInt int | KStr string

type_synonym pair_key = "pykey \<times> pykey"

fun hash_key :: "json \<Rightarrow> py_error + pykey" where
  "hash_key JNull = Inr KNone"
| "hash_key (JBool b) = Inr (KInt (if b then 1 else 0))"
| "hash_key (JInt n) = Inr (KInt n)"
| "hash_key (JStr s) = Inr (KStr s)"
| "hash_key (JArr _) = Inl TypeError"
| "hash_key (JObj _) = Inl TypeError"

text \<open>The tuple \<open>(a, b)\<close> as a set member: hashing it hashes \<open>a\<close>, then \<open>b\<close>.\<close>

definition tuple_key :: "json \<Rightarrow> json \<Rightarrow> py_error + pair_key" where
  "tuple_key a b =
     (case hash_key a of
        Inl e \<Rightarrow> Inl e
      | Inr ka \<Rightarrow> (case hash_key b of Inl e \<Rightarrow> Inl e | Inr kb \<Rightarrow> Inr (ka, kb)))"

section \<open>load_pairs: the set comprehension\<close>

text \<open>\<open>isinstance(entry, dict)\<close>, \<open>k in entry\<close> and \<open>entry[k]\<close>.\<close>

fun is_dict :: "json \<Rightarrow> bool" where
  "is_dict (JObj _) = True"
| "is_dict _ = False"

fun contains :: "json \<Rightarrow> string \<Rightarrow> bool" where
  "contains (JObj kvs) k = (map_of kvs k \<noteq> None)"
| "contains _ k = False"

fun getitem :: "json \<Rightarrow> string \<Rightarrow> json" where
  "getitem (JObj kvs) k = (case map_of kvs k of Some v \<Rightarrow> v | None \<Rightarrow> JNull)"
| "getitem _ k = JNull"

text \<open>
  \<open>getitem\<close> is only called under the guard \<open>contains entry k\<close>, where Python's
  \<open>entry[k]\<close> cannot raise \<open>KeyError\<close>; the \<open>JNull\<close> branches are never reached from
  \<open>collect_pairs\<close>.
\<close>

text \<open>The guard of the comprehension.\<close>

definition relevant :: "json \<Rightarrow> bool" where
  "relevant entry \<longleftrightarrow>
     is_dict entry \<and> contains entry ''aCommit'' \<and> contains entry ''name''"

text \<open>
  \<open>{(entry["aCommit"], entry["name"]) for entry in data if ...}\<close> over the entries in
  order: the first tuple that cannot be hashed raises \<open>TypeError\<close>.
\<close>

fun collect_pairs :: "json list \<Rightarrow> py_error + pair_key set" where
  "collect_pairs [] = Inr {}"
| "collect_pairs (entry # rest) =
     (if relevant entry then
        (case tuple_key (getitem entry ''aCommit'') (getitem entry ''name'') of
           Inl e \<Rightarrow> Inl e
         | Inr k \<Rightarrow>
             (case collect_pairs rest of
                Inl e \<Rightarrow> Inl e
              | Inr S \<Rightarrow> Inr (insert k S)))
      else collect_pairs rest)"

text \<open>
  \<open>for entry in data\<close>: a list yields its elements, a dict its keys, a str its characters
  (each a str of length one); \<open>None\<close>, a bool and an int are not iterable.
\<close>

fun py_iter :: "json \<Rightarrow> py_error + json list" where
  "py_iter (JArr xs) = Inr xs"
| "py_iter (JObj kvs) = Inr (map JStr (remdups (map fst kvs)))"
| "py_iter (JStr s) = Inr (map (\<lambda>c. JStr [c]) s)"
| "py_iter _ = Inl TypeError"

definition pairs_of_data :: "json \<Rightarrow> py_error + pair_key set" where
  "pairs_of_data data =
     (case py_iter data of Inl e \<Rightarrow> Inl e | Inr entries \<Rightarrow> collect_pairs entries)"

definition hashable :: "json \<Rightarrow> bool" where
  "hashable v = (case hash_key v of Inl _ \<Rightarrow> False | Inr _ \<Rightarrow> True)"

text \<open>
  The entry as the specification words it: a mapping containing both a commit identifier
  that is a string and a name that is a string.
\<close>

fun is_str :: "json \<Rightarrow> bool" where
  "is_str (JStr _) = True"
| "is_str _ = False"

definition spec_relevant :: "json \<Rightarrow> bool" where
  "spec_relevant entry \<longleftrightarrow>
     is_dict entry \<and>
     contains entry ''aCommit'' \<and> is_str (getitem entry ''aCommit'') \<and>
     contains entry ''name'' \<and> is_str (getitem entry ''name'')"

section \<open>Strings\<close>

text \<open>\<open>str.isspace\<close>, \<open>str.isdecimal\<close> and \<open>str.isdigit\<close> on U+0000 .. U+00FF.\<close>

definition isspace_char :: "char \<Rightarrow> bool" where
  "isspace_char c \<longleftrightarrow>
     (of_char c :: nat) \<in> {9, 10, 11, 12, 13, 28, 29, 30, 31, 32, 133, 160}"

definition isdecimal_char :: "char \<Rightarrow> bool" where
  "isdecimal_char c \<longleftrightarrow> 48 \<le> (of_char c :: nat) \<and> (of_char c :: nat) \<le> 57"

text \<open>
  \<open>isdigit\<close> also accepts the characters of Unicode numeric type Digit: below U+0100
  these are the superscripts two, three and one (U+00B2, U+00B3, U+00B9).
\<close>

definition isdigit_char :: "char \<Rightarrow> bool" where
  "isdigit_char c \<longleftrightarrow> isdecimal_char c \<or> (of_char c :: nat) \<in> {178, 179, 185}"

definition isdigit :: "string \<Rightarrow> bool" where
  "isdigit s \<longleftrightarrow> s \<noteq> [] \<and> list_all isdigit_char s"

definition strip :: "string \<Rightarrow> string" where
  "strip s = rev (dropWhile isspace_char (rev (dropWhile isspace_char s)))"

definition startswith :: "string \<Rightarrow> string \<Rightarrow> bool" where
  "startswith s pre \<longleftrightarrow> take (length pre) s = pre"

text \<open>
  \<open>int(s)\<close> for a string without white space, sign or underscore (none of which passes
  \<open>isdigit\<close>): the value of a non-empty string of decimal digits, \<open>ValueError\<close> otherwise.
  The interpreter's configurable limit on the number of digits is not modelled.
\<close>

definition py_int :: "string \<Rightarrow> py_error + nat" where
  "py_int s =
     (if s \<noteq> [] \<and> list_all isdecimal_char s
      then Inr (foldl (\<lambda>n c. 10 * n + (of_char c - 48)) 0 s)
      else Inl ValueError)"

text \<open>\<open>str(n)\<close> for a natural number, and \<open>sep.join(xs)\<close>.\<close>

fun string_of_nat :: "nat \<Rightarrow> string" where
  "string_of_nat n =
     (if n < 10 then [char_of (48 + n)]
      else string_of_nat (n div 10) @ [char_of (48 + n mod 10)])"

declare string_of_nat.simps [simp del]

fun join :: "string \<Rightarrow> string list \<Rightarrow> string" where
  "join sep [] = []"
| "join sep [x] = x"
| "join sep (x # y # ys) = x @ sep @ join sep (y # ys)"

definition nl :: string where
  "nl = [CHR 0x0A]"

section \<open>choose_from_list\<close>

text \<open>
  The console: the lines still to be read from standard input, and what has been written
  to standard output (one element for each \<open>print\<close>, without its final newline, and one
  for each prompt of \<open>input\<close>). \<open>input\<close> raises \<open>EOFError\<close> when no line is left.
\<close>

record console =
  stdin :: "string list"
  stdout :: "string list"

definition prompt :: "string list \<Rightarrow> string" where
  "prompt items = ''Enter number (1-'' @ string_of_nat (length items) @ ''): ''"

definition menu :: "string \<Rightarrow> string list \<Rightarrow> string list" where
  "menu title items =
     (nl @ ''Select '' @ title @ '':'') #
     map (\<lambda>(i, it). ''  '' @ string_of_nat i @ '') '' @ it)
       (zip [1 ..< Suc (length items)] items)"

text \<open>The \<open>while True\<close> loop: each round reads one line, so it ends when the input does.\<close>

fun choose_loop ::
  "string list \<Rightarrow> string list \<Rightarrow> string list \<Rightarrow> (failure + string) \<times> console" where
  "choose_loop items [] out =
     (Inl (Uncaught EOFError), \<lparr> stdin = [], stdout = out @ [prompt items] \<rparr>)"
| "choose_loop items (line # rest) out =
     (let choice = strip line; out1 = out @ [prompt items] in
      if isdigit choice then
        (case py_int choice of
           Inl e \<Rightarrow> (Inl (Uncaught e), \<lparr> stdin = rest, stdout = out1 \<rparr>)
         | Inr idx \<Rightarrow>
             if 1 \<le> idx \<and> idx \<le> length items
             then (Inr (items ! (idx - 1)), \<lparr> stdin = rest, stdout = out1 \<rparr>)
             else choose_loop items rest (out1 @ [''Invalid choice, try again.'']))
      else choose_loop items rest (out1 @ [''Invalid choice, try again.'']))"

definition choose_from_list ::
  "string \<Rightarrow> string list \<Rightarrow> console \<Rightarrow> (failure + string) \<times> console" where
  "choose_from_list title items c =
     (if items = [] then
        (Inl (SystemExit (''[ERR] No options found for '' @ title @ ''.'')), c)
      else choose_loop items (stdin c) (stdout c @ menu title items))"

section \<open>The file system\<close>

text \<open>
  A file is what \<open>json.load\<close> makes of its text: a \<open>JSONDecodeError\<close> with its diagnostic,
  or the parsed document. A directory is an association list from names to nodes, in the
  order \<open>iterdir\<close> enumerates it. A path is the list of its segments below the root
  (absolute and resolved; there are no symbolic links). Files that cannot be read or
  decoded are outside the model.
\<close>

datatype content = Malformed string | Document json

datatype node = File content | Dir "(string \<times> node) list"

type_synonym path = "string list"

fun lookup_path :: "node \<Rightarrow> path \<Rightarrow> py_error + node" where
  "lookup_path n [] = Inr n"
| "lookup_path (File _) (s # p) = Inl NotADirectoryError"
| "lookup_path (Dir es) (s # p) =
     (case map_of es s of
        None \<Rightarrow> Inl FileNotFoundError
      | Some n \<Rightarrow> lookup_path n p)"

text \<open>\<open>Path.exists\<close> answers \<open>False\<close> for both errors of the lookup.\<close>

definition exists :: "node \<Rightarrow> path \<Rightarrow> bool" where
  "exists fs p = (case lookup_path fs p of Inl _ \<Rightarrow> False | Inr _ \<Rightarrow> True)"

definition is_dir :: "node \<Rightarrow> path \<Rightarrow> bool" where
  "is_dir fs p = (case lookup_path fs p of Inr (Dir _) \<Rightarrow> True | _ \<Rightarrow> False)"

text \<open>The names of the children that \<open>p.iterdir()\<close> yields, in directory order.\<close>

definition iterdir :: "node \<Rightarrow> path \<Rightarrow> py_error + string list" where
  "iterdir fs p =
     (case lookup_path fs p of
        Inl e \<Rightarrow> Inl e
      | Inr (File _) \<Rightarrow> Inl NotADirectoryError
      | Inr (Dir es) \<Rightarrow> Inr (remdups (map fst es)))"

definition path_str :: "path \<Rightarrow> string" where
  "path_str p = (if p = [] then ''/'' else concat (map (\<lambda>s. ''/'' @ s) p))"

definition parent :: "path \<Rightarrow> path" where
  "parent p = butlast p"

section \<open>list_dirs\<close>

text \<open>
  \<open>sorted([d.name for d in p.iterdir() if p.is_dir() and not d.name.startswith(".")])\<close>:
  the guard asks \<open>is_dir\<close> of \<open>p\<close>, the directory that is listed, not of the child \<open>d\<close>.
\<close>

definition list_dirs :: "node \<Rightarrow> path \<Rightarrow> py_error + string list" where
  "list_dirs fs p =
     (case iterdir fs p of
        Inl e \<Rightarrow> Inl e
      | Inr names \<Rightarrow>
          Inr (sort (filter (\<lambda>name. is_dir fs p \<and> \<not> startswith name ''.'') names)))"

section \<open>ensure_file and load_pairs\<close>

definition ensure_file :: "node \<Rightarrow> path \<Rightarrow> failure + unit" where
  "ensure_file fs p =
     (if \<not> exists fs p then
        (if exists fs (parent p) then
           (case iterdir fs (parent p) of
              Inl e \<Rightarrow> Inl (Uncaught e)
            | Inr names \<Rightarrow>
                Inl (SystemExit
                  (''[ERR] File not found: '' @ path_str p @
                   nl @ ''[HINT] Contents of '' @ path_str (parent p) @ '':'' @ nl @ ''  '' @
                   join (nl @ ''  '') (sort names))))
         else Inl (SystemExit (''[ERR] File not found: '' @ path_str p)))
      else Inr ())"

definition load_pairs :: "node \<Rightarrow> path \<Rightarrow> failure + pair_key set" where
  "load_pairs fs json_path =
     (case lookup_path fs json_path of
        Inl FileNotFoundError \<Rightarrow>
          Inl (SystemExit (''[ERR] File not found: '' @ path_str json_path))
      | Inl e \<Rightarrow> Inl (Uncaught e)
      | Inr (Dir _) \<Rightarrow> Inl (Uncaught IsADirectoryError)
      | Inr (File (Malformed e)) \<Rightarrow>
          Inl (SystemExit (''[ERR] Invalid JSON in '' @ path_str json_path @ '': '' @ e))
      | Inr (File (Document data)) \<Rightarrow>
          (case pairs_of_data data of
             Inl e \<Rightarrow> Inl (Uncaught e)
           | Inr S \<Rightarrow> Inr S))"

section \<open>discover\<close>

text \<open>
  One step of \<open>discover\<close>, which the source writes three times: a segment that was given
  is kept; a missing one is chosen from \<open>list_dirs\<close> of the directory reached so far.
  \<open>root / student\<close> appends one segment (a given segment is taken to be a single name).
\<close>

definition segment ::
  "node \<Rightarrow> path \<Rightarrow> string option \<Rightarrow> string \<Rightarrow> console \<Rightarrow> (failure + string) \<times> console" where
  "segment fs dir given title c =
     (case given of
        Some s \<Rightarrow> (Inr s, c)
      | None \<Rightarrow>
          (case list_dirs fs dir of
             Inl e \<Rightarrow> (Inl (Uncaught e), c)
           | Inr names \<Rightarrow> choose_from_list title names c))"

definition discover ::
  "node \<Rightarrow> path \<Rightarrow> string option \<Rightarrow> string option \<Rightarrow> string option \<Rightarrow> string \<Rightarrow> console \<Rightarrow>
     (failure + string \<times> string \<times> string) \<times> console" where
  "discover fs root student owner repo side_label c =
     (case segment fs root student (side_label @ '' student (miner)'') c of
        (Inl f, c1) \<Rightarrow> (Inl f, c1)
      | (Inr student', c1) \<Rightarrow>
          (let owner_dir = root @ [student'] in
           case segment fs owner_dir owner (side_label @ '' repo owner/organization'') c1 of
             (Inl f, c2) \<Rightarrow> (Inl f, c2)
           | (Inr owner', c2) \<Rightarrow>
               (let leaf_root = owner_dir @ [owner'] in
                case segment fs leaf_root repo (side_label @ '' repository name'') c2 of
                  (Inl f, c3) \<Rightarrow> (Inl f, c3)
                | (Inr repo', c3) \<Rightarrow> (Inr (student', owner', repo'), c3))))"

definition resolve_dataset_path :: "path \<Rightarrow> string \<Rightarrow> string \<Rightarrow> string \<Rightarrow> path" where
  "resolve_dataset_path root student owner repo = root @ [student, owner, repo, ''dataset.json'']"

section \<open>main: checking, loading and comparing\<close>

text \<open>Lines 129 to 131 of \<open>main\<close>.\<close>

record comparison =
  missing :: "pair_key set"
  extra :: "pair_key set"
  matched :: "pair_key set"

definition differ :: "pair_key set \<Rightarrow> pair_key set \<Rightarrow> comparison" where
  "differ gold_set mine_set =
     \<lparr> missing = gold_set - mine_set,
       extra = mine_set - gold_set,
       matched = gold_set \<inter> mine_set \<rparr>"

text \<open>
  Lines 123 to 131 of \<open>main\<close>, from the two resolved paths on: both files are checked,
  then both are loaded, then compared. The summary printed from the three sets is not
  modelled.
\<close>

definition compare_paths :: "node \<Rightarrow> path \<Rightarrow> path \<Rightarrow> failure + comparison" where
  "compare_paths fs gold_path mine_path =
     (case ensure_file fs gold_path of
        Inl f \<Rightarrow> Inl f
      | Inr _ \<Rightarrow>
     (case ensure_file fs mine_path of
        Inl f \<Rightarrow> Inl f
      | Inr _ \<Rightarrow>
     (case load_pairs fs gold_path of
        Inl f \<Rightarrow> Inl f
      | Inr gold_set \<Rightarrow>
     (case load_pairs fs mine_path of
        Inl f \<Rightarrow> Inl f
      | Inr mine_set \<Rightarrow> Inr (differ gold_set mine_set)))))"

section \<open>The candidate list as the specification words it\<close>

text \<open>
  The names of the subdirectories of \<open>p\<close>, hidden entries excluded, in ascending order:
  here \<open>is_dir\<close> is asked of each child.
\<close>

definition spec_candidates :: "node \<Rightarrow> path \<Rightarrow> string list" where
  "spec_candidates fs p =
     (case iterdir fs p of
        Inl _ \<Rightarrow> []
      | Inr names \<Rightarrow>
          sort (filter (\<lambda>name. is_dir fs (p @ [name]) \<and> \<not> startswith name ''.'') names))"

section \<open>Example inputs\<close>

text \<open>A GOLD file with one entry and an empty MINE file.\<close>

definition fs_scenario :: node where
  "fs_scenario =
     Dir [(''gold.json'',
             File (Document (JArr [JObj [(''aCommit'', JStr ''c1''), (''name'', JStr ''t1'')]]))),
          (''mine.json'', File (Document (JArr [])))]"

text \<open>
  An array with elements of every shape: scalars, an array, mappings that lack one of the
  two keys, a mapping with both keys and string values, and one with both keys and values
  that are not strings.
\<close>

definition mixed_entries :: "json list" where
  "mixed_entries =
     [JInt 5, JStr ''aCommit'', JArr [JStr ''aCommit'', JStr ''name''],
      JObj [(''aCommit'', JStr ''c0'')],
      JObj [(''name'', JStr ''t0''), (''file'', JStr ''f.py'')],
      JObj [(''aCommit'', JStr ''c1''), (''name'', JStr ''t1''), (''file'', JArr [])],
      JObj [(''aCommit'', JInt 7), (''name'', JNull)]]"

definition fs_mixed :: node where
  "fs_mixed = Dir [(''dataset.json'', File (Document (JArr mixed_entries)))]"

definition numeric_entry :: json where
  "numeric_entry = JObj [(''aCommit'', JInt 1), (''name'', JInt 2)]"

definition fs_numeric :: node where
  "fs_numeric = Dir [(''dataset.json'', File (Document (JArr [numeric_entry])))]"

definition entry_c1_t1 :: json where
  "entry_c1_t1 = JObj [(''aCommit'', JStr ''c1''), (''name'', JStr ''t1'')]"

definition fs_duplicates :: node where
  "fs_duplicates =
     Dir [(''twice.json'', File (Document (JArr [entry_c1_t1, entry_c1_t1]))),
          (''once.json'', File (Document (JArr [entry_c1_t1])))]"

text \<open>A GOLD file whose document is a single object rather than an array of objects.\<close>

definition fs_object :: node where
  "fs_object =
     Dir [(''gold.json'',
             File (Document (JObj [(''aCommit'', JStr ''c1''), (''name'', JStr ''t1'')]))),
          (''mine.json'',
             File (Document (JArr [JObj [(''aCommit'', JStr ''c2''), (''name'', JStr ''t2'')]])))]"

text \<open>
  A root with a student directory, a regular file and a hidden directory, enumerated in
  two different orders.
\<close>

definition root_entries :: "(string \<times> node) list" where
  "root_entries =
     [(''alice'', Dir []), (''README.md'', File (Document JNull)), (''.git'', Dir [])]"

definition root_entries_reordered :: "(string \<times> node) list" where
  "root_entries_reordered =
     [(''.git'', Dir []), (''README.md'', File (Document JNull)), (''alice'', Dir [])]"

definition fs_root :: node where
  "fs_root = Dir root_entries"

definition fs_root_reordered :: node where
  "fs_root_reordered = Dir root_entries_reordered"

text \<open>A dataset path that runs through a regular file.\<close>

definition fs_notes :: node where
  "fs_notes = Dir [(''notes.txt'', File (Document (JArr [])))]"

definition path_through_file :: path where
  "path_through_file = [''notes.txt'', ''dataset.json'']"

text \<open>An input line that holds the single character U+00B2, superscript two.\<close>

definition superscript_two :: string where
  "superscript_two = [CHR 0xB2]"

section \<open>Lemmas about the loader\<close>

lemma tuple_key_hashable:
  "hashable a \<Longrightarrow> hashable b \<Longrightarrow> \<exists>k. tuple_key a b = Inr k"
  by (cases a; cases b) (simp_all add: tuple_key_def hashable_def)

lemma tuple_key_unhashable:
  "\<not> (hashable a \<and> hashable b) \<Longrightarrow> tuple_key a b = Inl TypeError"
  by (cases a; cases b) (simp_all add: tuple_key_def hashable_def)

text \<open>
  What the comprehension returns, for every list of entries: \<open>TypeError\<close> when some entry
  that passes the guard holds an unhashable value, and otherwise the set of the tuples of
  the entries that pass the guard.
\<close>

lemma collect_pairs_char:
  "collect_pairs xs =
     (if \<exists>e\<in>set xs. relevant e \<and>
           \<not> (hashable (getitem e ''aCommit'') \<and> hashable (getitem e ''name''))
      then Inl TypeError
      else Inr {k. \<exists>e\<in>set xs. relevant e \<and>
                     tuple_key (getitem e ''aCommit'') (getitem e ''name'') = Inr k})"
proof (induction xs)
  case Nil
  show ?case by simp
next
  case (Cons x xs)
  show ?case
  proof (cases "relevant x")
    case False
    with Cons show ?thesis by auto
  next
    case rel: True
    show ?thesis
    proof (cases "hashable (getitem x ''aCommit'') \<and> hashable (getitem x ''name'')")
      case False
      with rel show ?thesis
        by (auto simp: tuple_key_unhashable)
    next
      case True
      then obtain k where k: "tuple_key (getitem x ''aCommit'') (getitem x ''name'') = Inr k"
        using tuple_key_hashable by blast
      show ?thesis
      proof (cases "\<exists>e\<in>set xs. relevant e \<and>
           \<not> (hashable (getitem e ''aCommit'') \<and> hashable (getitem e ''name''))")
        case True
        with rel k Cons show ?thesis by auto
      next
        case False
        with rel k Cons True show ?thesis by auto
      qed
    qed
  qed
qed

lemma collect_pairs_set: "set xs = set ys \<Longrightarrow> collect_pairs xs = collect_pairs ys"
  by (simp add: collect_pairs_char)

lemma collect_pairs_skip: "\<forall>e\<in>set xs. \<not> relevant e \<Longrightarrow> collect_pairs xs = Inr {}"
  by (simp add: collect_pairs_char)

lemma not_relevant_JStr: "\<not> relevant (JStr s)"
  by (simp add: relevant_def)

lemma pairs_of_data_JObj: "pairs_of_data (JObj kvs) = Inr {}"
  by (simp add: pairs_of_data_def collect_pairs_skip not_relevant_JStr)

lemma pairs_of_data_JStr: "pairs_of_data (JStr s) = Inr {}"
  by (simp add: pairs_of_data_def collect_pairs_skip not_relevant_JStr)

lemma load_pairs_document:
  "lookup_path fs p = Inr (File (Document d)) \<Longrightarrow>
   load_pairs fs p = (case pairs_of_data d of Inl e \<Rightarrow> Inl (Uncaught e) | Inr S \<Rightarrow> Inr S)"
  by (simp add: load_pairs_def)

lemma load_pairs_malformed:
  "lookup_path fs p = Inr (File (Malformed e)) \<Longrightarrow>
   load_pairs fs p = Inl (SystemExit (''[ERR] Invalid JSON in '' @ path_str p @ '': '' @ e))"
  by (simp add: load_pairs_def)

lemma lookup_exists: "lookup_path fs p = Inr n \<Longrightarrow> exists fs p"
  by (simp add: exists_def)

lemma load_pairs_exists: "load_pairs fs p = Inr S \<Longrightarrow> exists fs p"
  by (auto simp: load_pairs_def exists_def split: sum.splits py_error.splits)

section \<open>Lemmas about ensure_file and the comparison\<close>

lemma ensure_file_exists: "exists fs p \<Longrightarrow> ensure_file fs p = Inr ()"
  by (simp add: ensure_file_def)

text \<open>The missing file whose parent is a directory: the message names the path and lists
  the parent.\<close>

lemma ensure_file_hint:
  assumes "\<not> exists fs p" and "lookup_path fs (parent p) = Inr (Dir es)"
  shows "ensure_file fs p =
     Inl (SystemExit (''[ERR] File not found: '' @ path_str p @
       nl @ ''[HINT] Contents of '' @ path_str (parent p) @ '':'' @ nl @ ''  '' @
       join (nl @ ''  '') (sort (remdups (map fst es)))))"
  using assms by (simp add: ensure_file_def exists_def iterdir_def)

text \<open>The missing file whose parent is missing too: the message names the path.\<close>

lemma ensure_file_plain:
  assumes "\<not> exists fs p" and "\<not> exists fs (parent p)"
  shows "ensure_file fs p = Inl (SystemExit (''[ERR] File not found: '' @ path_str p))"
  using assms by (simp add: ensure_file_def)

text \<open>The missing file whose parent is a regular file: \<open>iterdir\<close> raises.\<close>

lemma ensure_file_parent_file:
  assumes "\<not> exists fs p" and "lookup_path fs (parent p) = Inr (File c)"
  shows "ensure_file fs p = Inl (Uncaught NotADirectoryError)"
  using assms by (simp add: ensure_file_def exists_def iterdir_def)

text \<open>A failure of any of the four steps is the result: no comparison is made.\<close>

lemma compare_paths_failure:
  assumes "ensure_file fs g = Inl f \<or> ensure_file fs m = Inl f \<or>
           load_pairs fs g = Inl f \<or> load_pairs fs m = Inl f"
  shows "\<exists>f'. compare_paths fs g m = Inl f'"
  using assms by (auto simp: compare_paths_def split: sum.splits)

lemma compare_paths_loaded:
  assumes "load_pairs fs g = Inr G" and "load_pairs fs m = Inr M"
  shows "compare_paths fs g m = Inr (differ G M)"
  using assms by (simp add: compare_paths_def ensure_file_exists load_pairs_exists)

section \<open>Lemmas about list_dirs\<close>

lemma list_dirs_Dir:
  "lookup_path fs p = Inr (Dir es) \<Longrightarrow>
   list_dirs fs p = Inr (sort (filter (\<lambda>name. \<not> startswith name ''.'') (remdups (map fst es))))"
  by (simp add: list_dirs_def iterdir_def is_dir_def)

text \<open>No candidate is hidden, and every name of the directory that is not hidden is a
  candidate, whatever kind of entry it names.\<close>

lemma list_dirs_candidates:
  assumes "lookup_path fs p = Inr (Dir es)" and "list_dirs fs p = Inr names"
  shows "set names = {name \<in> fst ` set es. \<not> startswith name ''.''}"
  using assms by (force simp: list_dirs_Dir)

lemma sort_mset_cong: "mset xs = mset ys \<Longrightarrow> sort xs = sort (ys :: 'a::linorder list)"
  by (rule properties_for_sort) simp_all

section \<open>Lemmas about choose_from_list\<close>

lemma choose_from_list_empty:
  "choose_from_list title [] c =
     (Inl (SystemExit (''[ERR] No options found for '' @ title @ ''.'')), c)"
  by (simp add: choose_from_list_def)

lemma choose_loop_valid:
  assumes "isdigit (strip line)" and "py_int (strip line) = Inr k"
    and "1 \<le> k" and "k \<le> length items"
  shows "choose_loop items (line # rest) out =
     (Inr (items ! (k - 1)), \<lparr> stdin = rest, stdout = out @ [prompt items] \<rparr>)"
  using assms by simp

lemma choose_loop_not_digits:
  assumes "\<not> isdigit (strip line)"
  shows "choose_loop items (line # rest) out =
     choose_loop items rest (out @ [prompt items, ''Invalid choice, try again.''])"
  using assms by simp

lemma choose_loop_out_of_range:
  assumes "isdigit (strip line)" and "py_int (strip line) = Inr k"
    and "k < 1 \<or> length items < k"
  shows "choose_loop items (line # rest) out =
     choose_loop items rest (out @ [prompt items, ''Invalid choice, try again.''])"
  using assms by auto

text \<open>A line that passes \<open>isdigit\<close> and holds a character that is not a decimal digit
  ends the loop with the \<open>ValueError\<close> of \<open>int\<close>.\<close>

lemma choose_loop_not_decimal:
  assumes "isdigit (strip line)" and "\<not> list_all isdecimal_char (strip line)"
  shows "choose_loop items (line # rest) out =
     (Inl (Uncaught ValueError), \<lparr> stdin = rest, stdout = out @ [prompt items] \<rparr>)"
  using assms by (simp add: py_int_def)

lemma decimal_char_of: "(d::nat) < 10 \<Longrightarrow> isdecimal_char (char_of (48 + d))"
  by (simp add: isdecimal_char_def)

lemma string_of_nat_decimal: "list_all isdecimal_char (string_of_nat n)"
proof (induction n rule: string_of_nat.induct)
  case (1 n)
  show ?case
  proof (cases "n < 10")
    case True
    then show ?thesis
      by (subst string_of_nat.simps) (simp add: decimal_char_of)
  next
    case False
    with 1 show ?thesis
      by (subst string_of_nat.simps) (simp add: decimal_char_of)
  qed
qed

lemma string_of_nat_nonempty: "string_of_nat n \<noteq> []"
  by (subst string_of_nat.simps) simp

lemma string_of_nat_value:
  "foldl (\<lambda>n c. 10 * n + (of_char c - 48)) 0 (string_of_nat n) = n"
proof (induction n rule: string_of_nat.induct)
  case (1 n)
  show ?case
  proof (cases "n < 10")
    case True
    then show ?thesis
      by (subst string_of_nat.simps) simp
  next
    case False
    with 1 have "foldl (\<lambda>n c. 10 * n + (of_char c - 48)) 0 (string_of_nat (n div 10)) = n div 10"
      by simp
    with False show ?thesis
      by (subst string_of_nat.simps) simp
  qed
qed

text \<open>The decimal numeral of \<open>k\<close> is read back as \<open>k\<close>.\<close>

lemma py_int_string_of_nat: "py_int (string_of_nat n) = Inr n"
  by (simp add: py_int_def string_of_nat_decimal string_of_nat_nonempty string_of_nat_value)

section \<open>The claims\<close>

text \<open>
  C1. For every pair of dataset sets that \<open>load_pairs\<close> returns for the GOLD and the MINE
  path, the comparison is made and its three sets are: matched, the intersection of gold
  and mine; missing, the pairs of gold that are not in mine; extra, the pairs of mine that
  are not in gold.
\<close>

theorem differ_of_loaded_sets:
  assumes "load_pairs fs gold_path = Inr gold_set"
    and "load_pairs fs mine_path = Inr mine_set"
  shows "\<exists>r. compare_paths fs gold_path mine_path = Inr r \<and>
      matched r = gold_set \<inter> mine_set \<and>
      missing r = gold_set - mine_set \<and>
      extra r = mine_set - gold_set"
  using assms by (simp add: compare_paths_loaded differ_def)

text \<open>
  C1 at the scenario of a GOLD file with the one entry (c1, t1) and an empty MINE file:
  the pair is missing, nothing is extra, nothing is matched.
\<close>

theorem differ_of_loaded_sets_witness:
  "load_pairs fs_scenario [''gold.json''] = Inr {(KStr ''c1'', KStr ''t1'')} \<and>
   load_pairs fs_scenario [''mine.json''] = Inr {} \<and>
   compare_paths fs_scenario [''gold.json''] [''mine.json''] =
     Inr \<lparr> missing = {(KStr ''c1'', KStr ''t1'')}, extra = {}, matched = {} \<rparr>"
proof -
  have g: "load_pairs fs_scenario [''gold.json''] = Inr {(KStr ''c1'', KStr ''t1'')}"
    by (simp add: fs_scenario_def load_pairs_def pairs_of_data_def relevant_def tuple_key_def)
  have m: "load_pairs fs_scenario [''mine.json''] = Inr {}"
    by (simp add: fs_scenario_def load_pairs_def pairs_of_data_def)
  have "\<exists>r. compare_paths fs_scenario [''gold.json''] [''mine.json''] = Inr r \<and>
      matched r = {} \<and> missing r = {(KStr ''c1'', KStr ''t1'')} \<and> extra r = {}"
    using differ_of_loaded_sets [OF g m] by simp
  then obtain r where r: "compare_paths fs_scenario [''gold.json''] [''mine.json''] = Inr r"
      "matched r = {}" "missing r = {(KStr ''c1'', KStr ''t1'')}" "extra r = {}"
    by (elim exE conjE)
  have "r = \<lparr> missing = {(KStr ''c1'', KStr ''t1'')}, extra = {}, matched = {} \<rparr>"
    by (rule comparison.equality) (simp_all add: r)
  with r(1) g m show ?thesis by simp
qed

text \<open>
  C2, as stated, fails: an element of the array that is a mapping with both keys
  contributes a pair key also when the two values are not strings. The mapping with
  \<open>aCommit\<close> 1 and \<open>name\<close> 2 is not an entry in the specification's sense, and the file
  that holds it loads to the set with the pair (1, 2).
\<close>

theorem load_pairs_non_string_counterexample:
  "\<not> spec_relevant numeric_entry \<and>
   load_pairs fs_numeric [''dataset.json''] = Inr {(KInt 1, KInt 2)}"
  by (simp add: spec_relevant_def numeric_entry_def fs_numeric_def load_pairs_def
      pairs_of_data_def relevant_def tuple_key_def)

text \<open>
  C2, amended. For every input JSON array in which no mapping with both keys holds an
  array or an object as the value of \<open>aCommit\<close> or of \<open>name\<close>: loading raises no error,
  and an element contributes its pair key to the loaded set if and only if it is a mapping
  that contains the key \<open>aCommit\<close> and the key \<open>name\<close>, whatever the type of the two
  values; every element of any other shape is skipped.
\<close>

theorem load_pairs_contributes:
  assumes "lookup_path fs p = Inr (File (Document (JArr xs)))"
    and "\<forall>e\<in>set xs. relevant e \<longrightarrow>
           hashable (getitem e ''aCommit'') \<and> hashable (getitem e ''name'')"
  shows "load_pairs fs p =
     Inr {k. \<exists>e\<in>set xs. relevant e \<and>
               tuple_key (getitem e ''aCommit'') (getitem e ''name'') = Inr k}"
proof -
  have "collect_pairs xs =
     Inr {k. \<exists>e\<in>set xs. relevant e \<and>
               tuple_key (getitem e ''aCommit'') (getitem e ''name'') = Inr k}"
    using assms(2) by (auto simp: collect_pairs_char)
  with assms(1) show ?thesis
    by (simp add: load_pairs_document pairs_of_data_def)
qed

text \<open>
  The amended C2 at an array with elements of every shape: only the two mappings with
  both keys contribute, one with string values and one with the values 7 and null.
\<close>

theorem load_pairs_contributes_witness:
  "lookup_path fs_mixed [''dataset.json''] = Inr (File (Document (JArr mixed_entries))) \<and>
   load_pairs fs_mixed [''dataset.json''] = Inr {(KStr ''c1'', KStr ''t1''), (KInt 7, KNone)}"
proof -
  have l: "lookup_path fs_mixed [''dataset.json''] = Inr (File (Document (JArr mixed_entries)))"
    by (simp add: fs_mixed_def)
  have h: "\<forall>e\<in>set mixed_entries. relevant e \<longrightarrow>
     hashable (getitem e ''aCommit'') \<and> hashable (getitem e ''name'')"
    by (simp add: mixed_entries_def relevant_def hashable_def)
  have "{k. \<exists>e\<in>set mixed_entries. relevant e \<and>
           tuple_key (getitem e ''aCommit'') (getitem e ''name'') = Inr k} =
        {(KStr ''c1'', KStr ''t1''), (KInt 7, KNone)}"
    by (auto simp: mixed_entries_def relevant_def tuple_key_def)
  with load_pairs_contributes [OF l h] l show ?thesis by simp
qed

text \<open>
  C3. The code at a directory that holds the subdirectory \<open>alice\<close>, the regular file
  \<open>README.md\<close> and the hidden directory \<open>.git\<close>: \<open>list_dirs\<close> returns \<open>README.md\<close> along
  with \<open>alice\<close>, where the subdirectories are \<open>alice\<close> alone, and the chooser hands the
  name of the regular file back as the selected student.
\<close>

theorem list_dirs_offers_regular_file:
  "list_dirs fs_root [] = Inr [''README.md'', ''alice''] \<and>
   spec_candidates fs_root [] = [''alice''] \<and>
   fst (segment fs_root [] None ''GOLD student (miner)'' \<lparr> stdin = [''1''], stdout = [] \<rparr>) =
     Inr ''README.md''"
  by (simp add: fs_root_def root_entries_def list_dirs_def spec_candidates_def iterdir_def
      is_dir_def startswith_def segment_def choose_from_list_def strip_def isspace_char_def
      isdigit_def isdigit_char_def isdecimal_char_def py_int_def)

text \<open>
  C4. For any two dataset sets A and B the three result sets satisfy: missing and extra
  are disjoint, matched and missing together are A, matched and extra together are B.
\<close>

theorem differ_partition:
  "missing (differ A B) \<inter> extra (differ A B) = {} \<and>
   matched (differ A B) \<union> missing (differ A B) = A \<and>
   matched (differ A B) \<union> extra (differ A B) = B"
  by (auto simp: differ_def)

text \<open>
  C5. The code at a dataset path whose parent exists and is a regular file: the path
  does not exist, and \<open>ensure_file\<close> ends with the uncaught \<open>NotADirectoryError\<close> of
  \<open>parent.iterdir()\<close>, not with the exit whose message names the path; the run ends there
  with a non-zero status.
\<close>

theorem ensure_file_parent_not_directory:
  "\<not> exists fs_notes path_through_file \<and>
   exists fs_notes (parent path_through_file) \<and>
   ensure_file fs_notes path_through_file = Inl (Uncaught NotADirectoryError) \<and>
   compare_paths fs_notes path_through_file [''notes.txt''] = Inl (Uncaught NotADirectoryError) \<and>
   exit_status (compare_paths fs_notes path_through_file [''notes.txt'']) = 1"
  by (simp add: fs_notes_def path_through_file_def exists_def parent_def ensure_file_def
      iterdir_def compare_paths_def)

text \<open>
  C6. The code at the candidates \<open>alice\<close> and \<open>bob\<close> and the input line that holds the
  superscript two: the line passes \<open>isdigit\<close>, \<open>int\<close> raises \<open>ValueError\<close>, and the chooser
  ends with that uncaught exception after its first prompt; it neither returns a
  candidate nor prompts again.
\<close>

theorem choose_from_list_superscript_two:
  "isdigit (strip superscript_two) \<and>
   py_int (strip superscript_two) = Inl ValueError \<and>
   choose_from_list ''GOLD student (miner)'' [''alice'', ''bob'']
     \<lparr> stdin = [superscript_two, ''1''], stdout = [] \<rparr> =
   (Inl (Uncaught ValueError),
    \<lparr> stdin = [''1''],
      stdout = menu ''GOLD student (miner)'' [''alice'', ''bob''] @ [prompt [''alice'', ''bob'']] \<rparr>)"
  by (simp add: superscript_two_def choose_from_list_def strip_def isspace_char_def isdigit_def
      isdigit_char_def isdecimal_char_def py_int_def)

text \<open>
  C7. For any two dataset sets A and B, comparing (B, A) instead of (A, B) swaps missing
  and extra and leaves matched unchanged.
\<close>

theorem differ_symmetry:
  "missing (differ A B) = extra (differ B A) \<and>
   extra (differ A B) = missing (differ B A) \<and>
   matched (differ A B) = matched (differ B A)"
  by (auto simp: differ_def)

text \<open>
  C8. A file whose array holds an entry twice loads to what the file loads to whose array
  holds that entry once, wherever in the array the two copies stand.
\<close>

theorem load_pairs_duplicates_collapse:
  assumes "lookup_path fs p = Inr (File (Document (JArr (xs @ e # ys @ e # zs))))"
    and "lookup_path fs' p' = Inr (File (Document (JArr (xs @ e # ys @ zs))))"
  shows "load_pairs fs p = load_pairs fs' p'"
proof -
  have "collect_pairs (xs @ e # ys @ e # zs) = collect_pairs (xs @ e # ys @ zs)"
    by (rule collect_pairs_set) auto
  with assms show ?thesis
    by (simp add: load_pairs_document pairs_of_data_def)
qed

text \<open>C8 at the files with the entry (c1, t1) twice and once: both load to the same set.\<close>

theorem load_pairs_duplicates_collapse_witness:
  "lookup_path fs_duplicates [''twice.json''] =
     Inr (File (Document (JArr [entry_c1_t1, entry_c1_t1]))) \<and>
   lookup_path fs_duplicates [''once.json''] = Inr (File (Document (JArr [entry_c1_t1]))) \<and>
   load_pairs fs_duplicates [''twice.json''] = load_pairs fs_duplicates [''once.json'']"
proof -
  have a: "lookup_path fs_duplicates [''twice.json''] =
      Inr (File (Document (JArr ([] @ entry_c1_t1 # [] @ entry_c1_t1 # []))))"
    by (simp add: fs_duplicates_def)
  have b: "lookup_path fs_duplicates [''once.json''] =
      Inr (File (Document (JArr ([] @ entry_c1_t1 # [] @ []))))"
    by (simp add: fs_duplicates_def)
  from load_pairs_duplicates_collapse [OF a b] a b show ?thesis by simp
qed

text \<open>
  C9. If the document of a file is a JSON object or a JSON string, \<open>load_pairs\<close> returns
  the empty set and raises nothing, and the comparison with any other loaded side is made
  with that side empty.
\<close>

theorem load_pairs_non_array:
  assumes "lookup_path fs gold_path = Inr (File (Document d))"
    and "d = JObj kvs \<or> d = JStr s"
  shows "load_pairs fs gold_path = Inr {} \<and>
    (\<forall>mine_path mine_set. load_pairs fs mine_path = Inr mine_set \<longrightarrow>
       compare_paths fs gold_path mine_path = Inr (differ {} mine_set) \<and>
       compare_paths fs mine_path gold_path = Inr (differ mine_set {}))"
proof -
  from assms have "load_pairs fs gold_path = Inr {}"
    by (auto simp: load_pairs_document pairs_of_data_JObj pairs_of_data_JStr)
  then show ?thesis
    by (simp add: compare_paths_loaded)
qed

text \<open>
  C9 at a GOLD file that holds one object instead of an array of objects: it loads to the
  empty set, and the one pair of MINE is reported as extra.
\<close>

theorem load_pairs_non_array_witness:
  "lookup_path fs_object [''gold.json''] =
     Inr (File (Document (JObj [(''aCommit'', JStr ''c1''), (''name'', JStr ''t1'')]))) \<and>
   load_pairs fs_object [''mine.json''] = Inr {(KStr ''c2'', KStr ''t2'')} \<and>
   load_pairs fs_object [''gold.json''] = Inr {} \<and>
   compare_paths fs_object [''gold.json''] [''mine.json''] =
     Inr \<lparr> missing = {}, extra = {(KStr ''c2'', KStr ''t2'')}, matched = {} \<rparr>"
proof -
  have l: "lookup_path fs_object [''gold.json''] =
     Inr (File (Document (JObj [(''aCommit'', JStr ''c1''), (''name'', JStr ''t1'')])))"
    by (simp add: fs_object_def)
  have m: "load_pairs fs_object [''mine.json''] = Inr {(KStr ''c2'', KStr ''t2'')}"
    by (simp add: fs_object_def load_pairs_def pairs_of_data_def relevant_def tuple_key_def)
  have d: "JObj [(''aCommit'', JStr ''c1''), (''name'', JStr ''t1'')] =
             JObj [(''aCommit'', JStr ''c1''), (''name'', JStr ''t1'')] \<or>
           JObj [(''aCommit'', JStr ''c1''), (''name'', JStr ''t1'')] = JStr []"
    by simp
  from load_pairs_non_array [OF l d] l m show ?thesis by (simp add: differ_def)
qed

text \<open>
  C10. For every directory that is listed, the candidate list is in ascending order of
  the names, and it is the same list for every order in which the entries of the
  directory are enumerated.
\<close>

theorem list_dirs_sorted_deterministic:
  assumes "lookup_path fs p = Inr (Dir es)"
  shows "\<exists>names. list_dirs fs p = Inr names \<and> sorted names \<and>
     (\<forall>fs' p' es'. lookup_path fs' p' = Inr (Dir es') \<and> mset es' = mset es \<longrightarrow>
        list_dirs fs' p' = Inr names)"
proof -
  let ?vis = "\<lambda>name. \<not> startswith name ''.''"
  let ?names = "sort (filter ?vis (remdups (map fst es)))"
  have A: "list_dirs fs p = Inr ?names"
    using assms by (rule list_dirs_Dir)
  have B: "sorted ?names" by simp
  have C: "list_dirs fs' p' = Inr ?names"
    if L: "lookup_path fs' p' = Inr (Dir es')" and M: "mset es' = mset es" for fs' p' es'
  proof -
    from M have "set es' = set es" by (rule mset_eq_setD)
    then have "set (map fst es') = set (map fst es)" by simp
    then have "mset (remdups (map fst es')) = mset (remdups (map fst es))"
      by (simp only: set_eq_iff_mset_remdups_eq)
    then have "mset (filter ?vis (remdups (map fst es'))) =
        mset (filter ?vis (remdups (map fst es)))"
      by (simp only: mset_filter)
    then have "sort (filter ?vis (remdups (map fst es'))) = ?names"
      by (rule sort_mset_cong)
    with list_dirs_Dir [OF L] show ?thesis by simp
  qed
  from A B C show ?thesis by blast
qed

text \<open>
  C10 at a root directory enumerated in two orders: both give the list \<open>README.md\<close>,
  \<open>alice\<close>, which is ascending (an upper-case letter comes before a lower-case one).
\<close>

theorem list_dirs_sorted_deterministic_witness:
  "lookup_path fs_root [] = Inr (Dir root_entries) \<and>
   lookup_path fs_root_reordered [] = Inr (Dir root_entries_reordered) \<and>
   mset root_entries_reordered = mset root_entries \<and>
   list_dirs fs_root [] = Inr [''README.md'', ''alice''] \<and>
   list_dirs fs_root_reordered [] = Inr [''README.md'', ''alice''] \<and>
   sorted [''README.md'', ''alice'']"
proof -
  have a: "lookup_path fs_root [] = Inr (Dir root_entries)"
    by (simp add: fs_root_def)
  have b: "lookup_path fs_root_reordered [] = Inr (Dir root_entries_reordered)"
    by (simp add: fs_root_reordered_def)
  have c: "mset root_entries_reordered = mset root_entries"
    by (simp add: root_entries_def root_entries_reordered_def add_mset_commute)
  have d: "list_dirs fs_root [] = Inr [''README.md'', ''alice'']"
    by (simp add: fs_root_def root_entries_def list_dirs_def iterdir_def is_dir_def
        startswith_def)
  from list_dirs_sorted_deterministic [OF a] obtain names where
    n: "list_dirs fs_root [] = Inr names" "sorted names"
      "\<forall>fs' p' es'. lookup_path fs' p' = Inr (Dir es') \<and> mset es' = mset root_entries \<longrightarrow>
          list_dirs fs' p' = Inr names"
    by (elim exE conjE)
  from n(1) d have e: "names = [''README.md'', ''alice'']" by simp
  from n(3) b c have "list_dirs fs_root_reordered [] = Inr names" by blast
  with a b c d e n(2) show ?thesis by simp
qed

end
